theory Spec2Isabelle
  imports Main
begin

section \<open>Go runtime: panics, slice indexing and the strings package\<close>

text \<open>
  Go strings are byte sequences, so a string is a \<open>char list\<close>. An index
  expression \<open>xs[i]\<close> outside the slice panics with a runtime error; the
  panic is a value of the model (\<open>Inl\<close>), never an unspecified \<open>xs ! i\<close>.
\<close>

datatype panic = IndexOutOfRange nat nat

definition at_index :: "'a list \<Rightarrow> nat \<Rightarrow> panic + 'a" where
  "at_index xs i =
     (if i < length xs then Inr (xs ! i) else Inl (IndexOutOfRange i (length xs)))"

text \<open>\<open>strings.HasPrefix(s, prefix)\<close> and \<open>strings.Contains(s, substr)\<close>.\<close>

definition HasPrefix :: "string \<Rightarrow> string \<Rightarrow> bool" where
  "HasPrefix s p = (take (length p) s = p)"

fun Contains :: "string \<Rightarrow> string \<Rightarrow> bool" where
  "Contains [] sub = (sub = [])"
| "Contains (c # cs) sub = (HasPrefix (c # cs) sub \<or> Contains cs sub)"

text \<open>
  \<open>strings.Split(s, sep)\<close> for a one-byte separator (every call of the program
  passes \<open>":"\<close> or \<open>";"\<close>): the pieces between the separators, one more than
  there are separators, so a string without the separator gives the one-element
  slice holding the string itself. \<open>extend_first c ps\<close> puts the byte \<open>c\<close> in
  front of the first piece.
\<close>

fun extend_first :: "char \<Rightarrow> string list \<Rightarrow> string list" where
  "extend_first c [] = [[c]]"
| "extend_first c (p # ps) = (c # p) # ps"

fun Split :: "string \<Rightarrow> char \<Rightarrow> string list" where
  "Split [] sep = [[]]"
| "Split (c # cs) sep =
     (if c = sep then [] # Split cs sep else extend_first c (Split cs sep))"

text \<open>\<open>strings.Join(elems, sep)\<close>.\<close>

fun Join :: "string list \<Rightarrow> string \<Rightarrow> string" where
  "Join [] sep = []"
| "Join [x] sep = x"
| "Join (x # y # ys) sep = x @ sep @ Join (y # ys) sep"

text \<open>
  \<open>strings.Fields(s)\<close> splits around runs of white space as \<open>unicode.IsSpace\<close>
  defines it. \<open>spaceWidth s\<close> is the number of bytes of the white-space rune
  at the head of \<open>s\<close> (0 when there is none): the six ASCII characters, and the
  UTF-8 encodings of U+0085, U+00A0, U+1680, U+2000..U+200A, U+2028, U+2029,
  U+202F, U+205F and U+3000.
\<close>

definition asciiSpace :: "char \<Rightarrow> bool" where
  "asciiSpace c = (c \<in> set [CHR 0x09, CHR 0x0A, CHR 0x0B, CHR 0x0C, CHR 0x0D, CHR 0x20])"

fun spaceWidth :: "string \<Rightarrow> nat" where
  "spaceWidth [] = 0"
| "spaceWidth [c] = (if asciiSpace c then 1 else 0)"
| "spaceWidth [c, d] =
     (if asciiSpace c then 1
      else if c = CHR 0xC2 \<and> (d = CHR 0x85 \<or> d = CHR 0xA0) then 2 else 0)"
| "spaceWidth (c # d # e # r) =
     (if asciiSpace c then 1
      else if c = CHR 0xC2 \<and> (d = CHR 0x85 \<or> d = CHR 0xA0) then 2
      else if c = CHR 0xE1 \<and> d = CHR 0x9A \<and> e = CHR 0x80 then 3
      else if c = CHR 0xE2 \<and> d = CHR 0x80 \<and>
              e \<in> set [CHR 0x80, CHR 0x81, CHR 0x82, CHR 0x83, CHR 0x84, CHR 0x85,
                        CHR 0x86, CHR 0x87, CHR 0x88, CHR 0x89, CHR 0x8A,
                        CHR 0xA8, CHR 0xA9, CHR 0xAF] then 3
      else if c = CHR 0xE2 \<and> d = CHR 0x81 \<and> e = CHR 0x9F then 3
      else if c = CHR 0xE3 \<and> d = CHR 0x80 \<and> e = CHR 0x80 then 3
      else 0)"

text \<open>
  The scan of \<open>Fields\<close>: \<open>k\<close> bytes of a white-space rune are still to be
  skipped, \<open>w\<close> is the field read so far.
\<close>

fun fields_scan :: "nat \<Rightarrow> string \<Rightarrow> string \<Rightarrow> string list" where
  "fields_scan k w [] = (if w = [] then [] else [w])"
| "fields_scan k w (c # cs) =
     (if 0 < k then fields_scan (k - 1) w cs
      else if 0 < spaceWidth (c # cs)
           then (if w = [] then [] else [w]) @ fields_scan (spaceWidth (c # cs) - 1) [] cs
           else fields_scan 0 (w @ [c]) cs)"

definition Fields :: "string \<Rightarrow> string list" where
  "Fields s = fields_scan 0 [] s"

text \<open>
  \<open>strings.EqualFold(s, t)\<close>: equality of the runes under Unicode simple case
  folding. The only runes that fold with an ASCII character are the letter of the
  other case, U+017F (long s, bytes C5 BF in UTF-8) with \<open>S\<close> and \<open>s\<close>, and
  U+212A (Kelvin sign, bytes E2 84 AA) with \<open>K\<close> and \<open>k\<close>. \<open>foldKey\<close> maps these
  to the lower-case ASCII letter and leaves every other byte as it is, so
  \<open>EqualFold\<close> is the function of Go whenever one of the two strings is ASCII
  text, as the SQL type name is in every comparison the program makes. (The
  folding of two runes that are both outside ASCII is not modelled.)
\<close>

definition toLowerASCII :: "char \<Rightarrow> char" where
  "toLowerASCII c =
     (case map_of (zip ''ABCDEFGHIJKLMNOPQRSTUVWXYZ'' ''abcdefghijklmnopqrstuvwxyz'') c of
        None \<Rightarrow> c
      | Some d \<Rightarrow> d)"

fun foldKey :: "string \<Rightarrow> string" where
  "foldKey [] = []"
| "foldKey [c] = [toLowerASCII c]"
| "foldKey [c, d] =
     (if c = CHR 0xC5 \<and> d = CHR 0xBF then ''s''
      else [toLowerASCII c, toLowerASCII d])"
| "foldKey (c # d # e # r) =
     (if c = CHR 0xC5 \<and> d = CHR 0xBF then CHR ''s'' # foldKey (e # r)
      else if c = CHR 0xE2 \<and> d = CHR 0x84 \<and> e = CHR 0xAA then CHR ''k'' # foldKey r
      else toLowerASCII c # foldKey (d # e # r))"

definition EqualFold :: "string \<Rightarrow> string \<Rightarrow> bool" where
  "EqualFold s t = (foldKey s = foldKey t)"

section \<open>Models as the reflection API shows them\<close>

text \<open>
  \<open>reflect.Kind\<close>, and a type as the program inspects it: its kind, and for a
  named type the package path and the name, which together identify it
  (\<open>field.Type == reflect.TypeOf(gorm.Model{})\<close>).
\<close>

datatype kind =
    KInvalid | KBool | KInt | KInt8 | KInt16 | KInt32 | KInt64
  | KUint | KUint8 | KUint16 | KUint32 | KUint64 | KUintptr
  | KFloat32 | KFloat64 | KComplex64 | KComplex128
  | KArray | KChan | KFunc | KInterface | KMap | KPointer | KSlice
  | KString | KStruct | KUnsafePointer

record go_type =
  Kind :: kind
  PkgPath :: string
  TypeName :: string

definition gorm_Model :: go_type where
  "gorm_Model = \<lparr>Kind = KStruct, PkgPath = ''gorm.io/gorm'', TypeName = ''Model''\<rparr>"

definition time_Time :: go_type where
  "time_Time = \<lparr>Kind = KStruct, PkgPath = ''time'', TypeName = ''Time''\<rparr>"

text \<open>
  A struct field: its name, its type and the value of its \<open>gorm\<close> struct tag
  (\<open>field.Tag.Get("gorm")\<close>). A model is a pointer to a struct: the struct's
  name and its fields in declaration order.
\<close>

record struct_field =
  FieldName :: string
  FieldType :: go_type
  gormTag :: string

record model =
  ModelName :: string
  ModelFields :: "struct_field list"

text \<open>The naming strategy of the database handle (\<open>db.NamingStrategy\<close>).\<close>

record naming =
  TableName :: "string \<Rightarrow> string"
  ColumnName :: "string \<Rightarrow> string \<Rightarrow> string"

definition isModelField :: "struct_field \<Rightarrow> bool" where
  "isModelField field = (FieldName field = ''Model'' \<and> FieldType field = gorm_Model)"

section \<open>Type mapping\<close>

text \<open>\<open>getPostgresType\<close> of main.go.\<close>

definition getPostgresType :: "go_type \<Rightarrow> string" where
  "getPostgresType t =
     (case Kind t of
        KString \<Rightarrow> ''VARCHAR''
      | KInt \<Rightarrow> ''BIGINT'' | KInt8 \<Rightarrow> ''BIGINT'' | KInt16 \<Rightarrow> ''BIGINT''
      | KInt32 \<Rightarrow> ''BIGINT'' | KInt64 \<Rightarrow> ''BIGINT''
      | KFloat32 \<Rightarrow> ''DOUBLE PRECISION'' | KFloat64 \<Rightarrow> ''DOUBLE PRECISION''
      | KBool \<Rightarrow> ''BOOLEAN''
      | KStruct \<Rightarrow> (if TypeName t = ''Time'' then ''TIMESTAMP'' else ''TEXT'')
      | _ \<Rightarrow> ''TEXT'')"

text \<open>\<open>Migrator.getPostgresType\<close> of sql_helpers.go.\<close>

definition Migrator_getPostgresType :: "go_type \<Rightarrow> string" where
  "Migrator_getPostgresType goType =
     (case Kind goType of
        KInt \<Rightarrow> ''BIGINT'' | KInt8 \<Rightarrow> ''BIGINT'' | KInt16 \<Rightarrow> ''BIGINT''
      | KInt32 \<Rightarrow> ''BIGINT'' | KInt64 \<Rightarrow> ''BIGINT''
      | KUint \<Rightarrow> ''BIGINT'' | KUint8 \<Rightarrow> ''BIGINT'' | KUint16 \<Rightarrow> ''BIGINT''
      | KUint32 \<Rightarrow> ''BIGINT'' | KUint64 \<Rightarrow> ''BIGINT''
      | KString \<Rightarrow> ''TEXT''
      | KBool \<Rightarrow> ''BOOLEAN''
      | KFloat32 \<Rightarrow> ''FLOAT'' | KFloat64 \<Rightarrow> ''FLOAT''
      | KStruct \<Rightarrow> (if goType = time_Time then ''TIMESTAMP'' else ''TEXT'')
      | _ \<Rightarrow> ''TEXT'')"

section \<open>Annotation parsing and column definitions\<close>

text \<open>main.go: \<open>getDefault\<close>, \<open>getComment\<close>, \<open>getForeignKey\<close>,
  \<open>buildColumnDefinition\<close>.\<close>

definition getDefault :: "string \<Rightarrow> panic + string" where
  "getDefault tag = at_index (Split tag CHR '':'') 1"

definition getComment :: "string \<Rightarrow> panic + string" where
  "getComment tag =
     (if Contains tag ''comment'' then at_index (Split tag CHR '':'') 1 else Inr '''')"

definition getForeignKey :: "string \<Rightarrow> string \<Rightarrow> panic + string" where
  "getForeignKey tag columnName =
     (if Contains tag ''foreignKey''
      then (case at_index (Split tag CHR '':'') 1 of
              Inl e \<Rightarrow> Inl e
            | Inr p \<Rightarrow> Inr (''FOREIGN KEY ('' @ columnName @ '') REFERENCES '' @ p))
      else Inr '''')"

definition buildColumnDefinition :: "string \<Rightarrow> go_type \<Rightarrow> string \<Rightarrow> panic + string" where
  "buildColumnDefinition columnName fieldType tag =
     (let postgresType = getPostgresType fieldType;
          columnDef0 = columnName @ '' '' @ postgresType;
          columnDef1 = (if Contains tag ''not null'' then columnDef0 @ '' NOT NULL'' else columnDef0);
          columnDef2 = (if Contains tag ''unique'' then columnDef1 @ '' UNIQUE'' else columnDef1)
      in if Contains tag ''default''
         then (case getDefault tag of
                 Inl e \<Rightarrow> Inl e
               | Inr d \<Rightarrow> Inr (columnDef2 @ '' DEFAULT '' @ d))
         else Inr columnDef2)"

text \<open>sql_helpers.go: the methods of \<open>Migrator\<close>.\<close>

definition Migrator_getDefault :: "string \<Rightarrow> panic + string" where
  "Migrator_getDefault tag =
     (if Contains tag ''default:'' then at_index (Split tag CHR '':'') 1 else Inr '''')"

definition Migrator_getComment :: "string \<Rightarrow> panic + string" where
  "Migrator_getComment tag =
     (if Contains tag ''comment:'' then at_index (Split tag CHR '':'') 1 else Inr '''')"

text \<open>The loop of \<open>Migrator.getForeignKey\<close> over the parts between semicolons:
  the first part that starts with \<open>foreignKey:\<close> decides.\<close>

fun foreignKey_parts :: "string list \<Rightarrow> string \<Rightarrow> panic + string" where
  "foreignKey_parts [] columnName = Inr ''''"
| "foreignKey_parts (part # parts) columnName =
     (if HasPrefix part ''foreignKey:''
      then (case at_index (Split part CHR '':'') 1 of
              Inl e \<Rightarrow> Inl e
            | Inr references \<Rightarrow>
                Inr (''FOREIGN KEY ('' @ columnName @ '') REFERENCES '' @ references @ ''(id)''))
      else foreignKey_parts parts columnName)"

definition Migrator_getForeignKey :: "string \<Rightarrow> string \<Rightarrow> panic + string" where
  "Migrator_getForeignKey tag columnName =
     (if Contains tag ''foreignKey''
      then foreignKey_parts (Split tag CHR '';'') columnName
      else Inr '''')"

definition Migrator_buildColumnDefinition ::
  "string \<Rightarrow> go_type \<Rightarrow> string \<Rightarrow> panic + string" where
  "Migrator_buildColumnDefinition columnName goType tag =
     (let columnType = Migrator_getPostgresType goType;
          columnDef0 = columnName @ '' '' @ columnType;
          columnDef1 = (if Contains tag ''not null'' then columnDef0 @ '' NOT NULL'' else columnDef0)
      in case Migrator_getDefault tag of
           Inl e \<Rightarrow> Inl e
         | Inr defaultValue \<Rightarrow>
             Inr (if defaultValue \<noteq> '''' then columnDef1 @ '' DEFAULT '' @ defaultValue
                  else columnDef1))"

section \<open>Schema introspection\<close>

text \<open>
  The three catalogue queries of the program against \<open>information_schema\<close>,
  each a \<open>QueryRow(...).Scan(...)\<close>: \<open>Inl\<close> carries the text of the error
  when the query or the scan fails.
\<close>

record database =
  query_table_exists :: "string \<Rightarrow> string + bool"
  query_column_exists :: "string \<Rightarrow> string \<Rightarrow> string + bool"
  query_data_type :: "string \<Rightarrow> string \<Rightarrow> string + string"

section \<open>The diff engine\<close>

text \<open>
  The loop of \<open>compareModelToTable\<close> over the fields of the model. main.go and
  model_comparison.go hold the same loop and differ in the type mapper they call,
  which is the parameter \<open>pgType\<close>. The state of the loop is the slice
  \<open>differences\<close> and the lines written to the log.
\<close>

fun compareFields ::
  "(go_type \<Rightarrow> string) \<Rightarrow> naming \<Rightarrow> database \<Rightarrow> string \<Rightarrow> struct_field list
     \<Rightarrow> string list \<times> string list \<Rightarrow> string list \<times> string list" where
  "compareFields pgType ns db tableName [] acc = acc"
| "compareFields pgType ns db tableName (field # rest) (differences, logged) =
     (let columnName = ColumnName ns '''' (FieldName field) in
      if isModelField field then compareFields pgType ns db tableName rest (differences, logged)
      else
        case query_column_exists db tableName columnName of
          Inl err \<Rightarrow>
            compareFields pgType ns db tableName rest
              (differences, logged @ [''Error checking if column exists: '' @ err])
        | Inr colExists \<Rightarrow>
            if \<not> colExists then
              compareFields pgType ns db tableName rest
                (differences @ [''ADD COLUMN '' @ columnName @ '' '' @ pgType (FieldType field)],
                 logged)
            else
              case query_data_type db tableName columnName of
                Inl err \<Rightarrow>
                  compareFields pgType ns db tableName rest
                    (differences, logged @ [''Error getting column type: '' @ err])
              | Inr columnType \<Rightarrow>
                  if \<not> EqualFold columnType (pgType (FieldType field)) then
                    compareFields pgType ns db tableName rest
                      (differences @
                         [''ALTER COLUMN '' @ columnName @ '' TYPE '' @ pgType (FieldType field)],
                       logged)
                  else compareFields pgType ns db tableName rest (differences, logged))"

definition compareModelToTable :: "naming \<Rightarrow> database \<Rightarrow> model \<Rightarrow> string list \<times> string list" where
  "compareModelToTable ns db m =
     compareFields getPostgresType ns db (TableName ns (ModelName m)) (ModelFields m) ([], [])"

definition Migrator_compareModelToTable ::
  "naming \<Rightarrow> database \<Rightarrow> model \<Rightarrow> string list \<times> string list" where
  "Migrator_compareModelToTable ns db m =
     compareFields Migrator_getPostgresType ns db (TableName ns (ModelName m)) (ModelFields m)
       ([], [])"

section \<open>ALTER TABLE and its rollback\<close>

text \<open>
  \<open>generateAlterTableSQL\<close> and \<open>generateRollbackAlterTableSQL\<close>: the function of
  main.go and the method of \<open>Migrator\<close> are the same text.
\<close>

abbreviation (input) nl :: string where
  "nl \<equiv> [CHR 0x0A]"

definition generateAlterTableSQL :: "string \<Rightarrow> string list \<Rightarrow> string" where
  "generateAlterTableSQL tableName differences =
     (if length differences = 0 then ''''
      else ''ALTER TABLE '' @ tableName @ nl @ Join differences ('','' @ nl) @ '';'')"

fun rollbackStatements :: "string list \<Rightarrow> panic + string list" where
  "rollbackStatements [] = Inr []"
| "rollbackStatements (d # ds) =
     (if HasPrefix d ''ADD COLUMN''
      then (case at_index (Fields d) 2 of
              Inl e \<Rightarrow> Inl e
            | Inr columnName \<Rightarrow>
                (case rollbackStatements ds of
                   Inl e \<Rightarrow> Inl e
                 | Inr stmts \<Rightarrow> Inr ((''DROP COLUMN '' @ columnName) # stmts)))
      else rollbackStatements ds)"

definition generateRollbackAlterTableSQL :: "string \<Rightarrow> string list \<Rightarrow> panic + string" where
  "generateRollbackAlterTableSQL tableName differences =
     (case rollbackStatements differences of
        Inl e \<Rightarrow> Inl e
      | Inr stmts \<Rightarrow>
          Inr (if length stmts = 0 then ''''
               else ''ALTER TABLE '' @ tableName @ nl @ Join stmts ('','' @ nl) @ '';''))"

section \<open>CREATE TABLE\<close>

text \<open>The five slices the loop of \<open>generateCreateTableSQL\<close> fills.\<close>

record create_acc =
  columns :: "string list"
  primaryKeys :: "string list"
  foreignKeys :: "string list"
  indexes :: "string list"
  comments :: "string list"

definition no_columns :: create_acc where
  "no_columns =
     \<lparr>columns = [], primaryKeys = [], foreignKeys = [], indexes = [], comments = []\<rparr>"

definition baseColumns :: "string list" where
  "baseColumns =
     [''id BIGSERIAL PRIMARY KEY'',
      ''created_at TIMESTAMP NOT NULL DEFAULT CURRENT_TIMESTAMP'',
      ''updated_at TIMESTAMP NOT NULL DEFAULT CURRENT_TIMESTAMP'',
      ''deleted_at TIMESTAMP NULL'']"

definition indexStatement :: "string \<Rightarrow> string \<Rightarrow> string" where
  "indexStatement columnName tableName =
     ''CREATE INDEX idx_'' @ columnName @ '' ON '' @ tableName @ '' ('' @ columnName @ '');''"

definition commentStatement :: "string \<Rightarrow> string \<Rightarrow> string \<Rightarrow> string" where
  "commentStatement tableName columnName comment =
     ''COMMENT ON COLUMN '' @ tableName @ ''.'' @ columnName @ '' IS '' @ [CHR 0x27] @ comment
       @ [CHR 0x27] @ '';''"

text \<open>main.go: the loop of \<open>generateCreateTableSQL\<close> and the function.\<close>

fun createTableFields ::
  "naming \<Rightarrow> string \<Rightarrow> struct_field list \<Rightarrow> create_acc \<Rightarrow> panic + create_acc" where
  "createTableFields ns modelName [] acc = Inr acc"
| "createTableFields ns modelName (field # rest) acc =
     (let columnName = ColumnName ns '''' (FieldName field) in
      if isModelField field
      then createTableFields ns modelName rest (acc\<lparr>columns := columns acc @ baseColumns\<rparr>)
      else
        case buildColumnDefinition columnName (FieldType field) (gormTag field) of
          Inl e \<Rightarrow> Inl e
        | Inr columnDefinition \<Rightarrow>
            let acc1 = (if Contains (gormTag field) ''primaryKey''
                        then acc\<lparr>primaryKeys := primaryKeys acc @ [columnName]\<rparr> else acc)
            in case getForeignKey (gormTag field) columnName of
                 Inl e \<Rightarrow> Inl e
               | Inr foreignKey \<Rightarrow>
                   let acc2 = (if foreignKey \<noteq> ''''
                               then acc1\<lparr>foreignKeys := foreignKeys acc1 @ [foreignKey]\<rparr>
                               else acc1);
                       acc3 = (if Contains (gormTag field) ''index''
                               then acc2\<lparr>indexes := indexes acc2 @
                                      [indexStatement columnName (TableName ns modelName)]\<rparr>
                               else acc2)
                   in case getComment (gormTag field) of
                        Inl e \<Rightarrow> Inl e
                      | Inr comment \<Rightarrow>
                          let acc4 = (if comment \<noteq> ''''
                                      then acc3\<lparr>comments := comments acc3 @
                                             [commentStatement (TableName ns modelName)
                                                columnName comment]\<rparr>
                                      else acc3)
                          in createTableFields ns modelName rest
                               (acc4\<lparr>columns := columns acc4 @ [columnDefinition]\<rparr>))"

definition generateCreateTableSQL :: "naming \<Rightarrow> model \<Rightarrow> panic + string" where
  "generateCreateTableSQL ns m =
     (case createTableFields ns (ModelName m) (ModelFields m) no_columns of
        Inl e \<Rightarrow> Inl e
      | Inr acc \<Rightarrow>
          let cols = (if length (primaryKeys acc) > 0
                      then columns acc @
                             [''PRIMARY KEY ('' @ Join (primaryKeys acc) '', '' @ '')'']
                      else columns acc)
          in if length cols = 0 then Inr ''''
             else Inr (''CREATE TABLE '' @ TableName ns (ModelName m) @ '' ('' @ nl
                        @ Join cols ('','' @ nl) @ nl @ '');''))"

text \<open>sql_helpers.go: the loop of \<open>Migrator.generateCreateTableSQL\<close> and the method.\<close>

fun Migrator_createTableFields ::
  "naming \<Rightarrow> string \<Rightarrow> struct_field list \<Rightarrow> create_acc \<Rightarrow> panic + create_acc" where
  "Migrator_createTableFields ns modelName [] acc = Inr acc"
| "Migrator_createTableFields ns modelName (field # rest) acc =
     (let columnName = ColumnName ns '''' (FieldName field) in
      if isModelField field
      then Migrator_createTableFields ns modelName rest
             (acc\<lparr>columns := columns acc @ baseColumns\<rparr>)
      else
        case Migrator_buildColumnDefinition columnName (FieldType field) (gormTag field) of
          Inl e \<Rightarrow> Inl e
        | Inr columnDefinition \<Rightarrow>
            let acc1 = (if Contains (gormTag field) ''primaryKey''
                        then acc\<lparr>primaryKeys := primaryKeys acc @ [columnName]\<rparr> else acc)
            in case Migrator_getForeignKey (gormTag field) columnName of
                 Inl e \<Rightarrow> Inl e
               | Inr foreignKey \<Rightarrow>
                   let acc2 = (if foreignKey \<noteq> ''''
                               then acc1\<lparr>foreignKeys := foreignKeys acc1 @ [foreignKey]\<rparr>
                               else acc1);
                       acc3 = (if Contains (gormTag field) ''index''
                               then acc2\<lparr>indexes := indexes acc2 @
                                      [indexStatement columnName (TableName ns modelName)]\<rparr>
                               else acc2)
                   in case Migrator_getComment (gormTag field) of
                        Inl e \<Rightarrow> Inl e
                      | Inr comment \<Rightarrow>
                          let acc4 = (if comment \<noteq> ''''
                                      then acc3\<lparr>comments := comments acc3 @
                                             [commentStatement (TableName ns modelName)
                                                columnName comment]\<rparr>
                                      else acc3)
                          in Migrator_createTableFields ns modelName rest
                               (acc4\<lparr>columns := columns acc4 @ [columnDefinition]\<rparr>))"

definition Migrator_generateCreateTableSQL :: "naming \<Rightarrow> model \<Rightarrow> panic + string" where
  "Migrator_generateCreateTableSQL ns m =
     (case Migrator_createTableFields ns (ModelName m) (ModelFields m) no_columns of
        Inl e \<Rightarrow> Inl e
      | Inr acc \<Rightarrow>
          let sql0 = ''CREATE TABLE '' @ TableName ns (ModelName m) @ '' ('' @ nl
                       @ Join (columns acc) ('','' @ nl);
              sql1 = (if length (primaryKeys acc) > 0
                      then sql0 @ '','' @ nl @ ''PRIMARY KEY (''
                             @ Join (primaryKeys acc) '', '' @ '')''
                      else sql0);
              sql2 = sql1 @ nl @ '');'';
              sql3 = (if length (foreignKeys acc) > 0
                      then sql2 @ nl @ Join (foreignKeys acc) nl @ nl else sql2);
              sql4 = (if length (comments acc) > 0
                      then sql3 @ nl @ Join (comments acc) nl @ nl else sql3)
          in Inr sql4)"

section \<open>Writing migration files\<close>

text \<open>
  The configuration (\<open>Config\<close>, the flags of main.go), the part of the world a run
  reads, and what a run leaves behind: the files it wrote and the lines it
  logged. The progress lines printed on standard output are not part of the state.
  \<open>timestamp n\<close> is \<open>time.Now().Format("20060102150405")\<close> at the moment the
  file after \<open>n\<close> written ones is named; \<open>mkdir_error\<close> and \<open>write_error\<close> are
  the errors of \<open>os.MkdirAll\<close> and \<open>os.WriteFile\<close>, if any.
\<close>

record config =
  OutputDir :: string
  Debug :: bool

record filesystem =
  timestamp :: "nat \<Rightarrow> string"
  mkdir_error :: "string option"
  write_error :: "string \<Rightarrow> string option"

record migration_file =
  file_dir :: string
  file_name :: string
  file_content :: string

record run_state =
  files :: "migration_file list"
  logged :: "string list"

text \<open>
  A run ends early in two ways: an unrecovered panic, or \<open>log.Fatalf\<close>, which
  exits the process.
\<close>

datatype failure = Panicked panic | Fatal string

definition log_line :: "run_state \<Rightarrow> string \<Rightarrow> run_state" where
  "log_line st line = st\<lparr>logged := logged st @ [line]\<rparr>"

definition createMigrationFile ::
  "config \<Rightarrow> filesystem \<Rightarrow> run_state \<Rightarrow> string \<Rightarrow> string \<Rightarrow> bool \<Rightarrow> failure + run_state" where
  "createMigrationFile cfg fs st name content isUp =
     (if content = ''''
      then Inr (log_line st (''Skipping creation of empty migration file: '' @ name))
      else
        let direction = (if \<not> isUp then ''down'' else ''up'');
            filename = timestamp fs (length (files st)) @ ''_'' @ name @ ''.'' @ direction
                         @ ''.sql''
        in case mkdir_error fs of
             Some err \<Rightarrow> Inl (Fatal (''Failed to create migrations directory: '' @ err))
           | None \<Rightarrow>
               (case write_error fs filename of
                  Some err \<Rightarrow> Inl (Fatal (''Failed to write migration file: '' @ err))
                | None \<Rightarrow>
                    Inr (st\<lparr>files := files st @
                           [\<lparr>file_dir = OutputDir cfg, file_name = filename,
                             file_content = content\<rparr>]\<rparr>)))"

text \<open>
  The body of the loop of \<open>generateMigrations\<close> (main.go) and of
  \<open>Migrator.GenerateMigrations\<close> (migrator.go) for one model. The two bodies are
  the same text up to the generator and the comparison they call, the parameters
  \<open>createSQL\<close> and \<open>compare\<close>.
\<close>

definition processModel ::
  "(naming \<Rightarrow> model \<Rightarrow> panic + string) \<Rightarrow>
   (naming \<Rightarrow> database \<Rightarrow> model \<Rightarrow> string list \<times> string list) \<Rightarrow>
   config \<Rightarrow> naming \<Rightarrow> database \<Rightarrow> filesystem \<Rightarrow> run_state \<Rightarrow> model \<Rightarrow> failure + run_state" where
  "processModel createSQL compare cfg ns db fs st0 m =
     (let tableName = TableName ns (ModelName m);
          st = (if Debug cfg then log_line st0 (''Processing model: '' @ ModelName m) else st0)
      in case query_table_exists db tableName of
           Inl err \<Rightarrow> Inr (log_line st (''Error checking if table exists: '' @ err))
         | Inr tblExists \<Rightarrow>
             if \<not> tblExists then
               (case createSQL ns m of
                  Inl p \<Rightarrow> Inl (Panicked p)
                | Inr upSQL \<Rightarrow>
                    let downSQL = ''DROP TABLE IF EXISTS '' @ tableName @ '';'' in
                    if upSQL = ''''
                    then Inr (log_line st
                                (''Failed to generate CREATE TABLE SQL for '' @ tableName))
                    else
                      (case createMigrationFile cfg fs st
                              (''create_'' @ tableName @ ''_table'') upSQL True of
                         Inl f \<Rightarrow> Inl f
                       | Inr st1 \<Rightarrow>
                           createMigrationFile cfg fs st1
                             (''drop_'' @ tableName @ ''_table'') downSQL False))
             else
               (let differences = fst (compare ns db m);
                    st1 = st\<lparr>logged := logged st @ snd (compare ns db m)\<rparr>
                in if length differences > 0 then
                     (let upSQL = generateAlterTableSQL tableName differences in
                      case generateRollbackAlterTableSQL tableName differences of
                        Inl p \<Rightarrow> Inl (Panicked p)
                      | Inr downSQL \<Rightarrow>
                          if upSQL = '''' \<or> downSQL = ''''
                          then Inr (log_line st1
                                      (''Failed to generate ALTER TABLE SQL for '' @ tableName))
                          else
                            (case createMigrationFile cfg fs st1
                                    (''alter_'' @ tableName @ ''_table'') upSQL True of
                               Inl f \<Rightarrow> Inl f
                             | Inr st2 \<Rightarrow>
                                 createMigrationFile cfg fs st2
                                   (''rollback_'' @ tableName @ ''_table'') downSQL False))
                   else if Debug cfg
                   then Inr (log_line st1 (''No differences found for table '' @ tableName))
                   else Inr st1))"

fun processModels ::
  "(naming \<Rightarrow> model \<Rightarrow> panic + string) \<Rightarrow>
   (naming \<Rightarrow> database \<Rightarrow> model \<Rightarrow> string list \<times> string list) \<Rightarrow>
   config \<Rightarrow> naming \<Rightarrow> database \<Rightarrow> filesystem \<Rightarrow> run_state \<Rightarrow> model list \<Rightarrow> failure + run_state" where
  "processModels createSQL compare cfg ns db fs st [] = Inr st"
| "processModels createSQL compare cfg ns db fs st (m # ms) =
     (case processModel createSQL compare cfg ns db fs st m of
        Inl f \<Rightarrow> Inl f
      | Inr st1 \<Rightarrow> processModels createSQL compare cfg ns db fs st1 ms)"

text \<open>main.go: the model \<open>User\<close> and \<open>generateMigrations\<close> over the fixed list
  of models.\<close>

definition string_type :: go_type where
  "string_type = \<lparr>Kind = KString, PkgPath = '''', TypeName = ''string''\<rparr>"

definition User :: model where
  "User = \<lparr>ModelName = ''User'',
            ModelFields =
              [\<lparr>FieldName = ''Model'', FieldType = gorm_Model, gormTag = ''''\<rparr>,
               \<lparr>FieldName = ''Name'', FieldType = string_type, gormTag = ''''\<rparr>,
               \<lparr>FieldName = ''Email'', FieldType = string_type, gormTag = ''''\<rparr>]\<rparr>"

definition generateMigrations ::
  "config \<Rightarrow> naming \<Rightarrow> database \<Rightarrow> filesystem \<Rightarrow> run_state \<Rightarrow> failure + run_state" where
  "generateMigrations cfg ns db fs st =
     processModels generateCreateTableSQL compareModelToTable cfg ns db fs st [User]"

text \<open>migrator.go: \<open>Migrator.GenerateMigrations\<close> over the models of the migrator.\<close>

definition Migrator_GenerateMigrations ::
  "config \<Rightarrow> naming \<Rightarrow> database \<Rightarrow> filesystem \<Rightarrow> run_state \<Rightarrow> model list
     \<Rightarrow> failure + run_state" where
  "Migrator_GenerateMigrations cfg ns db fs st models =
     processModels Migrator_generateCreateTableSQL Migrator_compareModelToTable
       cfg ns db fs st models"

section \<open>Registering models\<close>

text \<open>
  register.go declares one package-level variable, the mutex \<open>modelLock\<close>
  (\<open>True\<close>: held). \<open>RegisterModels\<close> takes the mutex, assigns
  \<open>append(models, models...)\<close> to its own parameter \<open>models\<close> and releases the
  mutex on return. The result pairs the package state after the call with the last
  value of the parameter, which no caller sees. With the mutex already held and
  no other goroutine to release it, \<open>Lock\<close> never returns: \<open>None\<close>.
\<close>

record package_state =
  modelLock :: bool

definition RegisterModels :: "package_state \<Rightarrow> 'a list \<Rightarrow> (package_state \<times> 'a list) option" where
  "RegisterModels ps models =
     (if modelLock ps then None
      else
        let ps1 = ps\<lparr>modelLock := True\<rparr>;
            models1 = models @ models;
            ps2 = ps1\<lparr>modelLock := False\<rparr>
        in Some (ps2, models1))"

section \<open>Schema differences as data\<close>

text \<open>
  The program keeps a difference as the text of its clause. The two kinds of
  difference and the text \<open>compareModelToTable\<close> formats for each
  (\<open>fmt.Sprintf("ADD COLUMN %s %s", ...)\<close>,
  \<open>fmt.Sprintf("ALTER COLUMN %s TYPE %s", ...)\<close>):
\<close>

datatype difference = AddColumn string string | AlterColumnType string string

fun render :: "difference \<Rightarrow> string" where
  "render (AddColumn name sql_type) = ''ADD COLUMN '' @ name @ '' '' @ sql_type"
| "render (AlterColumnType name sql_type) = ''ALTER COLUMN '' @ name @ '' TYPE '' @ sql_type"

fun diff_column :: "difference \<Rightarrow> string" where
  "diff_column (AddColumn name sql_type) = name"
| "diff_column (AlterColumnType name sql_type) = name"

fun isAddColumn :: "difference \<Rightarrow> bool" where
  "isAddColumn (AddColumn name sql_type) = True"
| "isAddColumn (AlterColumnType name sql_type) = False"

definition dropClause :: "difference \<Rightarrow> string" where
  "dropClause d = ''DROP COLUMN '' @ diff_column d"

text \<open>
  A column name as a naming strategy makes it from a Go identifier: not empty and
  without a white-space rune.
\<close>

fun hasSpace :: "string \<Rightarrow> bool" where
  "hasSpace [] = False"
| "hasSpace (c # cs) = (0 < spaceWidth (c # cs) \<or> hasSpace cs)"

definition wellFormedName :: "string \<Rightarrow> bool" where
  "wellFormedName name = (name \<noteq> [] \<and> \<not> hasSpace name)"

text \<open>
  The column specifications of a model, name and SQL type, in declaration order:
  the embedded \<open>gorm.Model\<close> contributes none.
\<close>

definition column_specs :: "(go_type \<Rightarrow> string) \<Rightarrow> naming \<Rightarrow> model \<Rightarrow> (string \<times> string) list" where
  "column_specs pgType ns m =
     map (\<lambda>field. (ColumnName ns '''' (FieldName field), pgType (FieldType field)))
       (filter (\<lambda>field. \<not> isModelField field) (ModelFields m))"

text \<open>The names of the columns a model specifies.\<close>

definition model_columns :: "naming \<Rightarrow> model \<Rightarrow> string list" where
  "model_columns ns m =
     map (\<lambda>field. ColumnName ns '''' (FieldName field))
       (filter (\<lambda>field. \<not> isModelField field) (ModelFields m))"

text \<open>
  The diff of the specification, section 4.4, in its words: for each column
  specification in order, ask whether the column exists; absent gives
  \<open>AddColumn\<close>; present with a live type that differs, compared without regard
  to case, gives \<open>AlterColumnType\<close>; equal types give nothing; a failed query
  skips the column.
\<close>

fun spec_diff :: "database \<Rightarrow> string \<Rightarrow> (string \<times> string) list \<Rightarrow> difference list" where
  "spec_diff db tableName [] = []"
| "spec_diff db tableName ((name, sql_type) # specs) =
     (case query_column_exists db tableName name of
        Inl err \<Rightarrow> spec_diff db tableName specs
      | Inr colExists \<Rightarrow>
          if \<not> colExists then AddColumn name sql_type # spec_diff db tableName specs
          else
            (case query_data_type db tableName name of
               Inl err \<Rightarrow> spec_diff db tableName specs
             | Inr live_type \<Rightarrow>
                 if EqualFold live_type sql_type then spec_diff db tableName specs
                 else AlterColumnType name sql_type # spec_diff db tableName specs))"

section \<open>Sample inputs\<close>

text \<open>
  A naming strategy in the manner of gorm's default for one-word names (\<open>User\<close>
  to \<open>users\<close>, \<open>Email\<close> to \<open>email\<close>); a database whose table \<open>users\<close> has the
  columns \<open>id\<close>, \<open>name\<close>, \<open>email\<close> and \<open>legacy_code\<close>, the column \<open>email\<close> of type
  \<open>character varying\<close> and the others of type \<open>text\<close>; the same database without
  the column \<open>email\<close>; a file system that accepts every write.
\<close>

definition sample_naming :: naming where
  "sample_naming =
     \<lparr>TableName = (\<lambda>name. map toLowerASCII name @ ''s''),
      ColumnName = (\<lambda>table name. map toLowerASCII name)\<rparr>"

definition sample_db :: database where
  "sample_db =
     \<lparr>query_table_exists = (\<lambda>t. Inr (t = ''users'')),
      query_column_exists =
        (\<lambda>t c. Inr (t = ''users'' \<and> c \<in> set [''id'', ''name'', ''email'', ''legacy_code''])),
      query_data_type =
        (\<lambda>t c. if t = ''users'' \<and> c = ''email'' then Inr ''character varying''
               else if t = ''users'' \<and> c \<in> set [''id'', ''name'', ''legacy_code'']
                    then Inr ''text''
                    else Inl ''sql: no rows in result set'')\<rparr>"

definition sample_db_without_email :: database where
  "sample_db_without_email =
     \<lparr>query_table_exists = (\<lambda>t. Inr (t = ''users'')),
      query_column_exists =
        (\<lambda>t c. Inr (t = ''users'' \<and> c \<in> set [''id'', ''name'', ''legacy_code''])),
      query_data_type =
        (\<lambda>t c. if t = ''users'' \<and> c \<in> set [''id'', ''name'', ''legacy_code'']
               then Inr ''text''
               else Inl ''sql: no rows in result set'')\<rparr>"

definition sample_fs :: filesystem where
  "sample_fs =
     \<lparr>timestamp = (\<lambda>n. ''20240101120000''), mkdir_error = None,
      write_error = (\<lambda>name. None)\<rparr>"

definition sample_config :: config where
  "sample_config = \<lparr>OutputDir = ''migrations'', Debug = False\<rparr>"

definition fresh_run :: run_state where
  "fresh_run = \<lparr>files = [], logged = []\<rparr>"

definition int_type :: go_type where
  "int_type = \<lparr>Kind = KInt, PkgPath = '''', TypeName = ''int''\<rparr>"

definition uint_type :: go_type where
  "uint_type = \<lparr>Kind = KUint, PkgPath = '''', TypeName = ''uint''\<rparr>"

section \<open>Facts about the strings package\<close>

lemma Split_no_sep: "sep \<notin> set a \<Longrightarrow> Split a sep = [a]"
  by (induction a) auto

lemma Split_first: "sep \<notin> set a \<Longrightarrow> Split (a @ sep # b) sep = a # Split b sep"
  by (induction a) auto

lemma length_Split: "length (Split s sep) = Suc (length (filter (\<lambda>c. c = sep) s))"
proof (induction s)
  case Nil
  then show ?case by simp
next
  case (Cons c cs)
  then show ?case by (cases "Split cs sep") auto
qed

lemma Split_has_second: "sep \<in> set s \<Longrightarrow> \<exists>p. at_index (Split s sep) 1 = Inr p"
proof -
  assume "sep \<in> set s"
  then have "filter (\<lambda>c. c = sep) s \<noteq> []"
    by (simp add: filter_empty_conv)
  then have "1 < length (Split s sep)"
    by (simp add: length_Split)
  then show ?thesis by (simp add: at_index_def)
qed

lemma HasPrefix_iff: "HasPrefix s p \<longleftrightarrow> (\<exists>r. s = p @ r)"
proof
  assume "HasPrefix s p"
  then have "s = p @ drop (length p) s"
    by (metis HasPrefix_def append_take_drop_id)
  then show "\<exists>r. s = p @ r" ..
next
  assume "\<exists>r. s = p @ r"
  then show "HasPrefix s p" by (auto simp: HasPrefix_def)
qed

lemma Contains_iff: "Contains s sub \<longleftrightarrow> (\<exists>a b. s = a @ sub @ b)"
proof (induction s)
  case Nil
  then show ?case by simp
next
  case (Cons c cs)
  show ?case
  proof
    assume "Contains (c # cs) sub"
    then consider "HasPrefix (c # cs) sub" | "Contains cs sub" by auto
    then show "\<exists>a b. c # cs = a @ sub @ b"
    proof cases
      case 1
      then obtain r where "c # cs = sub @ r" by (auto simp: HasPrefix_iff)
      then have "c # cs = [] @ sub @ r" by simp
      then show ?thesis by blast
    next
      case 2
      with Cons.IH obtain a b where "cs = a @ sub @ b" by blast
      then have "c # cs = (c # a) @ sub @ b" by simp
      then show ?thesis by blast
    qed
  next
    assume "\<exists>a b. c # cs = a @ sub @ b"
    then obtain a b where ab: "c # cs = a @ sub @ b" by blast
    show "Contains (c # cs) sub"
    proof (cases a)
      case Nil
      with ab have "HasPrefix (c # cs) sub" by (auto simp: HasPrefix_iff)
      then show ?thesis by simp
    next
      case (Cons x xs)
      with ab have "cs = xs @ sub @ b" by simp
      with Cons.IH have "Contains cs sub" by blast
      then show ?thesis by simp
    qed
  qed
qed

lemma Split_head_prefix: "Split s sep = h # t \<Longrightarrow> \<exists>b. s = h @ b"
proof (induction s arbitrary: h t)
  case Nil
  then show ?case by simp
next
  case (Cons c cs)
  show ?case
  proof (cases "c = sep")
    case True
    with Cons.prems show ?thesis by simp
  next
    case False
    obtain h1 t1 where s: "Split cs sep = h1 # t1"
      by (cases "Split cs sep") (simp_all add: length_Split[of cs sep, simplified] flip: length_0_conv)
    with False Cons.prems have "h = c # h1" by simp
    moreover from Cons.IH[OF s] obtain b where "cs = h1 @ b" ..
    ultimately show ?thesis by simp
  qed
qed

lemma Split_part_substring: "p \<in> set (Split s sep) \<Longrightarrow> \<exists>a b. s = a @ p @ b"
proof (induction s arbitrary: p)
  case Nil
  then show ?case by simp
next
  case (Cons c cs)
  show ?case
  proof (cases "c = sep")
    case True
    with Cons.prems consider "p = []" | "p \<in> set (Split cs sep)" by auto
    then show ?thesis
    proof cases
      case 1
      then have "c # cs = [] @ p @ (c # cs)" by simp
      then show ?thesis by blast
    next
      case 2
      from Cons.IH[OF 2] obtain a b where "cs = a @ p @ b" by blast
      then have "c # cs = (c # a) @ p @ b" by simp
      then show ?thesis by blast
    qed
  next
    case False
    obtain h1 t1 where s: "Split cs sep = h1 # t1"
      by (cases "Split cs sep") (simp_all add: length_Split[of cs sep, simplified] flip: length_0_conv)
    with False Cons.prems consider "p = c # h1" | "p \<in> set t1" by auto
    then show ?thesis
    proof cases
      case 1
      from Split_head_prefix[OF s] obtain b where "cs = h1 @ b" ..
      with 1 have "c # cs = [] @ p @ b" by simp
      then show ?thesis by blast
    next
      case 2
      with s have "p \<in> set (Split cs sep)" by simp
      from Cons.IH[OF this] obtain a b where "cs = a @ p @ b" by blast
      then have "c # cs = (c # a) @ p @ b" by simp
      then show ?thesis by blast
    qed
  qed
qed

lemma Split_part_Contains:
  assumes "p \<in> set (Split s sep)" and "HasPrefix p sub"
  shows "Contains s sub"
proof -
  from Split_part_substring[OF assms(1)] obtain a b where "s = a @ p @ b" by blast
  moreover from assms(2) obtain r where "p = sub @ r" by (auto simp: HasPrefix_iff)
  ultimately have "s = a @ sub @ (r @ b)" by simp
  then show ?thesis unfolding Contains_iff by blast
qed

lemma Contains_set: "Contains s sub \<Longrightarrow> set sub \<subseteq> set s"
proof (induction s)
  case Nil
  then show ?case by simp
next
  case (Cons c cs)
  from Cons.prems have "HasPrefix (c # cs) sub \<or> Contains cs sub" by simp
  then show ?case
  proof
    assume "HasPrefix (c # cs) sub"
    then have "sub = take (length sub) (c # cs)" by (simp add: HasPrefix_def)
    then have "set sub \<subseteq> set (c # cs)" by (metis set_take_subset)
    then show ?thesis .
  next
    assume "Contains cs sub"
    with Cons.IH show ?thesis by auto
  qed
qed

lemma HasPrefix_set: "HasPrefix s p \<Longrightarrow> set p \<subseteq> set s"
  by (metis HasPrefix_def set_take_subset)

lemma spaceWidth_ascii: "asciiSpace c \<Longrightarrow> spaceWidth (c # cs) = 1"
  by (cases "(c # cs)" rule: spaceWidth.cases) auto

lemma spaceWidth_plain:
  "\<not> asciiSpace c \<Longrightarrow> c \<notin> set [CHR 0xC2, CHR 0xE1, CHR 0xE2, CHR 0xE3] \<Longrightarrow>
   spaceWidth (c # cs) = 0"
  by (cases "(c # cs)" rule: spaceWidth.cases) auto

text \<open>A byte that starts no white-space rune starts none when a blank follows the text.\<close>

lemma spaceWidth_before_space:
  assumes "spaceWidth (c # cs) = 0"
  shows "spaceWidth (c # cs @ CHR '' '' # r) = 0"
proof (cases cs)
  case Nil
  with assms show ?thesis
    by (cases r) (auto simp: asciiSpace_def split: if_splits)
next
  case (Cons d ds)
  with assms show ?thesis
    by (cases ds) (auto simp: asciiSpace_def split: if_splits)
qed

lemma fields_scan_word:
  "\<not> hasSpace n \<Longrightarrow>
   fields_scan 0 w (n @ CHR '' '' # r) = fields_scan 0 (w @ n) (CHR '' '' # r)"
proof (induction n arbitrary: w)
  case Nil
  then show ?case by simp
next
  case (Cons c cs)
  from Cons.prems have a: "spaceWidth (c # cs) = 0" and b: "\<not> hasSpace cs" by auto
  have "spaceWidth (c # cs @ CHR '' '' # r) = 0"
    using spaceWidth_before_space[OF a] .
  then show ?case using Cons.IH[OF b, of "w @ [c]"] by simp
qed

lemma fields_scan_space:
  "fields_scan 0 w (CHR '' '' # r) = (if w = [] then [] else [w]) @ fields_scan 0 [] r"
  by (simp add: spaceWidth_ascii asciiSpace_def del: spaceWidth.simps)

lemma fields_scan_plain:
  "\<not> asciiSpace c \<Longrightarrow> c \<notin> set [CHR 0xC2, CHR 0xE1, CHR 0xE2, CHR 0xE3] \<Longrightarrow>
   fields_scan 0 w (c # cs) = fields_scan 0 (w @ [c]) cs"
  by (simp add: spaceWidth_plain del: spaceWidth.simps)

text \<open>
  \<open>EqualFold\<close> on the type names: the case of the letters does not count, and
  the long s of \<open>time\<close>\<open>\<dots>\<close>\<open>tamp\<close> folds with the \<open>S\<close> of \<open>TIMESTAMP\<close>.
\<close>

lemma EqualFold_samples:
  "EqualFold ''text'' ''TEXT'' \<and>
   EqualFold ''Character Varying'' ''character varying'' \<and>
   \<not> EqualFold ''character varying'' ''TEXT'' \<and>
   EqualFold (''time'' @ [CHR 0xC5, CHR 0xBF] @ ''tamp'') ''TIMESTAMP'' \<and>
   EqualFold [CHR 0xE2, CHR 0x84, CHR 0xAA] ''k'' \<and>
   \<not> EqualFold (''te'' @ [CHR 0xC3, CHR 0xA9] @ ''t'') ''TEXT''"
  by (simp add: EqualFold_def toLowerASCII_def)

section \<open>The type mappers\<close>

text \<open>
  \<open>Migrator.getPostgresType\<close> is total and its result is never empty: the
  kinds \<open>int\<close> to \<open>int64\<close> and \<open>uint\<close> to \<open>uint64\<close> give \<open>BIGINT\<close>, a string
  \<open>TEXT\<close>, a boolean \<open>BOOLEAN\<close>, a float \<open>FLOAT\<close>, \<open>time.Time\<close>
  \<open>TIMESTAMP\<close> and everything else, \<open>uintptr\<close> included, \<open>TEXT\<close>.
\<close>

theorem Migrator_getPostgresType_table:
  "Migrator_getPostgresType t =
     (if Kind t \<in> set [KInt, KInt8, KInt16, KInt32, KInt64,
                        KUint, KUint8, KUint16, KUint32, KUint64] then ''BIGINT''
      else if Kind t = KString then ''TEXT''
      else if Kind t = KBool then ''BOOLEAN''
      else if Kind t \<in> set [KFloat32, KFloat64] then ''FLOAT''
      else if t = time_Time then ''TIMESTAMP''
      else ''TEXT'') \<and>
   Migrator_getPostgresType t \<noteq> ''''"
  by (cases "Kind t") (auto simp: Migrator_getPostgresType_def time_Time_def)

text \<open>
  Claim C6: the type mapper gives every field type a non-empty SQL type, \<open>BIGINT\<close>
  for the signed and the unsigned integers, \<open>TEXT\<close> for a string and for every
  unrecognised type. \<open>Migrator.getPostgresType\<close> does so for the kinds \<open>uint\<close> to
  \<open>uint64\<close> and for a string, by the theorem above. \<open>getPostgresType\<close> of
  main.go does not: its switch has no case for the unsigned kinds and maps a
  string to \<open>VARCHAR\<close>, so an unsigned integer becomes \<open>TEXT\<close> there where the
  method gives \<open>BIGINT\<close>, and a string \<open>VARCHAR\<close> where the method gives
  \<open>TEXT\<close>.
\<close>

theorem getPostgresType_unsigned_is_TEXT:
  "getPostgresType uint_type = ''TEXT'' \<and>
   Migrator_getPostgresType uint_type = ''BIGINT'' \<and>
   getPostgresType string_type = ''VARCHAR'' \<and>
   Migrator_getPostgresType string_type = ''TEXT''"
  by (simp add: getPostgresType_def Migrator_getPostgresType_def uint_type_def
        string_type_def)

section \<open>Annotations without a value\<close>

lemma foreignKey_parts_total: "\<exists>r. foreignKey_parts parts columnName = Inr r"
proof (induction parts)
  case Nil
  then show ?case by simp
next
  case (Cons part parts)
  show ?case
  proof (cases "HasPrefix part ''foreignKey:''")
    case True
    then have "CHR '':'' \<in> set part"
      using HasPrefix_set[of part "''foreignKey:''"] by auto
    then obtain p where "at_index (Split part CHR '':'') 1 = Inr p"
      using Split_has_second by blast
    with True show ?thesis by simp
  next
    case False
    with Cons.IH show ?thesis by simp
  qed
qed

text \<open>\<open>getDefault\<close> of main.go panics exactly on the annotations without a colon.\<close>

lemma getDefault_panics_iff:
  "getDefault tag = Inl (IndexOutOfRange 1 1) \<longleftrightarrow> CHR '':'' \<notin> set tag"
proof -
  have "length (Split tag CHR '':'') = 1 \<longleftrightarrow> CHR '':'' \<notin> set tag"
    by (auto simp: length_Split filter_empty_conv)
  moreover have "1 \<le> length (Split tag CHR '':'')"
    by (simp add: length_Split)
  ultimately show ?thesis
    by (auto simp: getDefault_def at_index_def)
qed

lemma Migrator_getDefault_total: "\<exists>r. Migrator_getDefault tag = Inr r"
proof (cases "Contains tag ''default:''")
  case True
  then have "CHR '':'' \<in> set tag"
    using Contains_set[of tag "''default:''"] by auto
  then show ?thesis
    using True Split_has_second by (simp add: Migrator_getDefault_def)
next
  case False
  then show ?thesis by (simp add: Migrator_getDefault_def)
qed

lemma Migrator_getComment_total: "\<exists>r. Migrator_getComment tag = Inr r"
proof (cases "Contains tag ''comment:''")
  case True
  then have "CHR '':'' \<in> set tag"
    using Contains_set[of tag "''comment:''"] by auto
  then show ?thesis
    using True Split_has_second by (simp add: Migrator_getComment_def)
next
  case False
  then show ?thesis by (simp add: Migrator_getComment_def)
qed

lemma Migrator_getForeignKey_total: "\<exists>r. Migrator_getForeignKey tag columnName = Inr r"
  using foreignKey_parts_total by (simp add: Migrator_getForeignKey_def)

lemma Migrator_buildColumnDefinition_total:
  "\<exists>r. Migrator_buildColumnDefinition columnName goType tag = Inr r"
proof -
  obtain dv where "Migrator_getDefault tag = Inr dv"
    using Migrator_getDefault_total by blast
  then show ?thesis
    by (simp add: Migrator_buildColumnDefinition_def Let_def)
qed

text \<open>
  The methods of \<open>Migrator\<close> look for the token with its colon before they index
  the pieces, so they return on every annotation.
\<close>

theorem Migrator_annotation_parsers_never_panic:
  "(\<exists>r. Migrator_getDefault tag = Inr r) \<and>
   (\<exists>r. Migrator_getComment tag = Inr r) \<and>
   (\<exists>r. Migrator_getForeignKey tag columnName = Inr r) \<and>
   (\<exists>r. Migrator_buildColumnDefinition columnName goType tag = Inr r)"
  using Migrator_getDefault_total Migrator_getComment_total Migrator_getForeignKey_total
    Migrator_buildColumnDefinition_total
  by blast

text \<open>
  Claim C8: the functions that generate DDL return normally on every annotation,
  also on a \<open>default\<close>, \<open>comment\<close> or \<open>foreignKey\<close> token without a value.
  This holds of the methods of \<open>Migrator\<close>, by the theorem above, and fails on
  the functions of main.go, which index the pieces of the annotation without
  looking for a colon: on the annotation \<open>default\<close> the functions \<open>getDefault\<close> and
  \<open>buildColumnDefinition\<close> panic with an index out of range, as \<open>getComment\<close>
  does on \<open>comment\<close> and \<open>getForeignKey\<close> on \<open>foreignKey\<close>, and with them
  \<open>generateCreateTableSQL\<close> on a model that has such a field.
\<close>

theorem main_annotation_parsers_panic:
  "getDefault ''default'' = Inl (IndexOutOfRange 1 1) \<and>
   buildColumnDefinition ''age'' int_type ''default'' = Inl (IndexOutOfRange 1 1) \<and>
   getComment ''comment'' = Inl (IndexOutOfRange 1 1) \<and>
   getForeignKey ''foreignKey'' ''owner_id'' = Inl (IndexOutOfRange 1 1) \<and>
   generateCreateTableSQL ns
     \<lparr>ModelName = ''Person'',
      ModelFields = [\<lparr>FieldName = ''Age'', FieldType = int_type, gormTag = ''default''\<rparr>]\<rparr>
     = Inl (IndexOutOfRange 1 1) \<and>
   Migrator_buildColumnDefinition ''age'' int_type ''default'' = Inr ''age BIGINT''"
  by (simp add: getDefault_def buildColumnDefinition_def getComment_def getForeignKey_def
        generateCreateTableSQL_def Migrator_buildColumnDefinition_def Migrator_getDefault_def
        at_index_def HasPrefix_def isModelField_def int_type_def gorm_Model_def
        getPostgresType_def Migrator_getPostgresType_def Let_def)

section \<open>The value of an annotation token\<close>

text \<open>
  On an annotation with two colons or more that holds \<open>default:\<close>,
  \<open>Migrator.getDefault\<close> returns what stands between the first two colons.
\<close>

lemma Migrator_getDefault_second_piece:
  assumes "Contains (a @ CHR '':'' # b @ CHR '':'' # c) ''default:''"
    and "CHR '':'' \<notin> set a" and "CHR '':'' \<notin> set b"
  shows "Migrator_getDefault (a @ CHR '':'' # b @ CHR '':'' # c) = Inr b"
proof -
  have "Split (a @ CHR '':'' # b @ CHR '':'' # c) CHR '':'' = a # b # Split c CHR '':''"
    by (simp add: Split_first assms(2,3))
  then show ?thesis
    using assms(1) by (simp add: Migrator_getDefault_def at_index_def)
qed

text \<open>
  Claim C9: the value of a token is read whatever other tokens the annotation
  holds and in whatever order; for an annotation with \<open>default:value\<close> the
  default is exactly \<open>value\<close>. The code does otherwise: \<open>getDefault\<close> and
  \<open>getComment\<close>, in both files, return the text between the first and the
  second colon of the whole annotation, whichever token it belongs to. With
  \<open>default:5\<close> before \<open>comment:hi\<close> the default is \<open>5;comment\<close> and so is the
  comment; with \<open>comment:hi\<close> first the default is \<open>hi;default\<close>; the claim
  asks for \<open>5\<close>. Alone, \<open>default:5\<close> gives \<open>5\<close>.
\<close>

theorem getDefault_reads_up_to_the_second_colon:
  "Migrator_getDefault ''default:5;comment:hi'' = Inr ''5;comment'' \<and>
   Migrator_getDefault ''comment:hi;default:5'' = Inr ''hi;default'' \<and>
   Migrator_getComment ''default:5;comment:hi'' = Inr ''5;comment'' \<and>
   getDefault ''default:5;comment:hi'' = Inr ''5;comment'' \<and>
   getDefault ''comment:hi;default:5'' = Inr ''hi;default'' \<and>
   Migrator_buildColumnDefinition ''age'' int_type ''default:5;comment:hi'' =
     Inr ''age BIGINT DEFAULT 5;comment'' \<and>
   Migrator_getDefault ''default:5'' = Inr ''5''"
  by (simp add: Migrator_getDefault_def Migrator_getComment_def getDefault_def
        Migrator_buildColumnDefinition_def at_index_def HasPrefix_def int_type_def
        Migrator_getPostgresType_def Let_def)

section \<open>Foreign keys\<close>

text \<open>
  On the annotation of the specification's example the method gives the
  referenced column \<open>id\<close>, not \<open>order_id\<close>, and the function of main.go the text
  between the first two colons.
\<close>

theorem getForeignKey_ignores_references:
  "Migrator_getForeignKey ''foreignKey:Orders;references:order_id'' ''order_id'' =
     Inr ''FOREIGN KEY (order_id) REFERENCES Orders(id)'' \<and>
   Migrator_getForeignKey ''foreignKey:Orders;references:order_id'' ''order_id'' \<noteq>
     Inr ''FOREIGN KEY (order_id) REFERENCES Orders(order_id)'' \<and>
   getForeignKey ''foreignKey:Orders;references:order_id'' ''order_id'' =
     Inr ''FOREIGN KEY (order_id) REFERENCES Orders;references''"
  by (simp add: Migrator_getForeignKey_def getForeignKey_def at_index_def HasPrefix_def)

lemma foreignKey_part:
  assumes "CHR '':'' \<notin> set tbl"
  shows "foreignKey_parts ((''foreignKey:'' @ tbl) # parts) columnName =
           Inr (''FOREIGN KEY ('' @ columnName @ '') REFERENCES '' @ tbl @ ''(id)'')"
proof -
  have k: "CHR '':'' \<notin> set ''foreignKey''"
    by simp
  have "Split (''foreignKey'' @ CHR '':'' # tbl) CHR '':'' =
          ''foreignKey'' # Split tbl CHR '':''"
    using k by (rule Split_first)
  then have "Split (''foreignKey:'' @ tbl) CHR '':'' = [''foreignKey'', tbl]"
    by (simp add: Split_no_sep[OF assms])
  then have "at_index (Split (''foreignKey:'' @ tbl) CHR '':'') 1 = Inr tbl"
    by (simp add: at_index_def)
  moreover have "HasPrefix (''foreignKey:'' @ tbl) ''foreignKey:''"
    by (simp add: HasPrefix_def)
  ultimately show ?thesis by simp
qed

lemma foreignKey_parts_skip:
  "list_all (\<lambda>part. \<not> HasPrefix part ''foreignKey:'') before \<Longrightarrow>
   foreignKey_parts (before @ parts) columnName = foreignKey_parts parts columnName"
  by (induction before) simp_all

text \<open>
  Claim C4, amended. When the first part of the annotation between semicolons
  that starts with \<open>foreignKey:\<close> is \<open>foreignKey:table\<close>, for a table name without
  a colon, \<open>Migrator.getForeignKey\<close> gives
  \<open>FOREIGN KEY (column) REFERENCES table(id)\<close>, whatever the other parts are: the
  referenced column is always \<open>id\<close>, and a \<open>references:col\<close> part is not read.
\<close>

theorem Migrator_getForeignKey_references_id:
  assumes "Split tag CHR '';'' = before @ (''foreignKey:'' @ tbl) # after"
    and "list_all (\<lambda>part. \<not> HasPrefix part ''foreignKey:'') before"
    and "CHR '':'' \<notin> set tbl"
  shows "Migrator_getForeignKey tag columnName =
           Inr (''FOREIGN KEY ('' @ columnName @ '') REFERENCES '' @ tbl @ ''(id)'')"
proof -
  have "(''foreignKey:'' @ tbl) \<in> set (Split tag CHR '';'')"
    by (simp only: assms(1)) simp
  moreover have "HasPrefix (''foreignKey:'' @ tbl) ''foreignKey''"
    by (simp add: HasPrefix_def)
  ultimately have c: "Contains tag ''foreignKey''"
    by (rule Split_part_Contains)
  have "foreignKey_parts (Split tag CHR '';'') columnName =
          foreignKey_parts ((''foreignKey:'' @ tbl) # after) columnName"
    by (simp only: assms(1) foreignKey_parts_skip[OF assms(2)])
  also have "\<dots> = Inr (''FOREIGN KEY ('' @ columnName @ '') REFERENCES '' @ tbl @ ''(id)'')"
    by (rule foreignKey_part[OF assms(3)])
  finally show ?thesis
    by (simp only: Migrator_getForeignKey_def c if_True)
qed

theorem Migrator_getForeignKey_references_id_witness:
  "Split ''foreignKey:Orders;references:order_id'' CHR '';'' =
     [] @ (''foreignKey:'' @ ''Orders'') # [''references:order_id''] \<and>
   list_all (\<lambda>part. \<not> HasPrefix part ''foreignKey:'') [] \<and>
   CHR '':'' \<notin> set ''Orders'' \<and>
   Migrator_getForeignKey ''foreignKey:Orders;references:order_id'' ''order_id'' =
     Inr ''FOREIGN KEY (order_id) REFERENCES Orders(id)'' \<and>
   Migrator_getForeignKey ''not null;foreignKey:Orders'' ''order_id'' =
     Inr ''FOREIGN KEY (order_id) REFERENCES Orders(id)''"
proof -
  have a: "Split ''foreignKey:Orders;references:order_id'' CHR '';'' =
             [] @ (''foreignKey:'' @ ''Orders'') # [''references:order_id'']"
    by simp
  have b: "list_all (\<lambda>part. \<not> HasPrefix part ''foreignKey:'') []"
    by simp
  have c: "CHR '':'' \<notin> set ''Orders''"
    by simp
  have a2: "Split ''not null;foreignKey:Orders'' CHR '';'' =
              [''not null''] @ (''foreignKey:'' @ ''Orders'') # []"
    by simp
  have b2: "list_all (\<lambda>part. \<not> HasPrefix part ''foreignKey:'') [''not null'']"
    by (simp add: HasPrefix_def)
  show ?thesis
    using a b c
      Migrator_getForeignKey_references_id [OF a b c, of "''order_id''"]
      Migrator_getForeignKey_references_id [OF a2 b2 c, of "''order_id''"]
    by simp
qed

section \<open>The diff engine emits differences for model columns only\<close>

text \<open>
  The loop of \<open>compareModelToTable\<close> appends to \<open>differences\<close> the clauses of the
  diff of the specification, for the column specifications of the fields it sees.
\<close>

lemma compareFields_render:
  "fst (compareFields pgType ns db tableName flds (differences, lg)) =
     differences @
       map render
         (spec_diff db tableName
            (map (\<lambda>field. (ColumnName ns '''' (FieldName field), pgType (FieldType field)))
               (filter (\<lambda>field. \<not> isModelField field) flds)))"
proof (induction flds arbitrary: differences lg)
  case Nil
  then show ?case by simp
next
  case (Cons field rest)
  show ?case
    by (simp add: Cons.IH Let_def split: sum.splits)
qed

lemma spec_diff_columns:
  "set (map diff_column (spec_diff db tableName specs)) \<subseteq> set (map fst specs)"
proof (induction specs)
  case Nil
  then show ?case by simp
next
  case (Cons spec specs)
  obtain name sql_type where spec: "spec = (name, sql_type)"
    by (cases spec)
  from Cons.IH show ?case
    unfolding spec by (auto split: sum.splits)
qed

lemma fst_column_specs: "map fst (column_specs pgType ns m) = model_columns ns m"
  by (simp add: column_specs_def model_columns_def comp_def)

lemma spec_diff_other_column:
  assumes "c \<notin> set (model_columns ns m)"
  shows "list_all (\<lambda>d. diff_column d \<noteq> c)
           (spec_diff db tableName (column_specs pgType ns m))"
proof -
  have "set (map diff_column (spec_diff db tableName (column_specs pgType ns m)))
          \<subseteq> set (model_columns ns m)"
    using spec_diff_columns[of db tableName "column_specs pgType ns m"]
    by (simp only: fst_column_specs)
  with assms show ?thesis
    by (auto simp: list_all_iff)
qed

lemma render_no_drop: "\<not> HasPrefix (render d) ''DROP COLUMN''"
  by (cases d) (simp_all add: HasPrefix_def)

lemma rendered_no_drop:
  "list_all (\<lambda>s. \<not> HasPrefix s ''DROP COLUMN'') (map render ds)"
  by (induction ds) (simp_all add: render_no_drop del: render.simps)

text \<open>
  Claim C1. Let \<open>c\<close> be a column that is not among the columns the model
  specifies (a live column of the table, for one). The differences
  \<open>compareModelToTable\<close> returns, in main.go and in model_comparison.go, are the
  clauses of a list of \<open>AddColumn\<close> and \<open>AlterColumnType\<close> differences none of
  which is about \<open>c\<close>, and no clause is a \<open>DROP COLUMN\<close>.
\<close>

theorem diff_never_touches_columns_outside_the_model:
  assumes "c \<notin> set (model_columns ns m)"
  shows
    "(fst (compareModelToTable ns db m) =
        map render (spec_diff db (TableName ns (ModelName m))
                      (column_specs getPostgresType ns m)) \<and>
      list_all (\<lambda>d. diff_column d \<noteq> c)
        (spec_diff db (TableName ns (ModelName m)) (column_specs getPostgresType ns m)) \<and>
      list_all (\<lambda>s. \<not> HasPrefix s ''DROP COLUMN'') (fst (compareModelToTable ns db m))) \<and>
     (fst (Migrator_compareModelToTable ns db m) =
        map render (spec_diff db (TableName ns (ModelName m))
                      (column_specs Migrator_getPostgresType ns m)) \<and>
      list_all (\<lambda>d. diff_column d \<noteq> c)
        (spec_diff db (TableName ns (ModelName m))
           (column_specs Migrator_getPostgresType ns m)) \<and>
      list_all (\<lambda>s. \<not> HasPrefix s ''DROP COLUMN'')
        (fst (Migrator_compareModelToTable ns db m)))"
proof -
  have a: "fst (compareModelToTable ns db m) =
        map render (spec_diff db (TableName ns (ModelName m))
                      (column_specs getPostgresType ns m))"
    by (simp add: compareModelToTable_def compareFields_render column_specs_def)
  have b: "fst (Migrator_compareModelToTable ns db m) =
        map render (spec_diff db (TableName ns (ModelName m))
                      (column_specs Migrator_getPostgresType ns m))"
    by (simp add: Migrator_compareModelToTable_def compareFields_render column_specs_def)
  show ?thesis
    using spec_diff_other_column[OF assms]
    by (simp only: a b rendered_no_drop simp_thms)
qed

theorem diff_never_touches_columns_outside_the_model_witness:
  "''legacy_code'' \<notin> set (model_columns sample_naming User) \<and>
   query_column_exists sample_db ''users'' ''legacy_code'' = Inr True \<and>
   fst (compareModelToTable sample_naming sample_db_without_email User) =
     [''ALTER COLUMN name TYPE VARCHAR'', ''ADD COLUMN email VARCHAR''] \<and>
   fst (Migrator_compareModelToTable sample_naming sample_db_without_email User) =
     [''ADD COLUMN email TEXT''] \<and>
   list_all (\<lambda>d. diff_column d \<noteq> ''legacy_code'')
     (spec_diff sample_db_without_email ''users''
        (column_specs Migrator_getPostgresType sample_naming User))"
proof -
  have c: "''legacy_code'' \<notin> set (model_columns sample_naming User)"
    by (simp add: model_columns_def sample_naming_def User_def isModelField_def
          gorm_Model_def string_type_def toLowerASCII_def)
  have e: "query_column_exists sample_db ''users'' ''legacy_code'' = Inr True"
    by (simp add: sample_db_def)
  have s: "spec_diff sample_db_without_email ''users''
             (column_specs getPostgresType sample_naming User) =
           [AlterColumnType ''name'' ''VARCHAR'', AddColumn ''email'' ''VARCHAR'']"
    by (simp add: column_specs_def sample_naming_def User_def isModelField_def
          gorm_Model_def string_type_def toLowerASCII_def getPostgresType_def
          sample_db_without_email_def EqualFold_def)
  have t: "spec_diff sample_db_without_email ''users''
             (column_specs Migrator_getPostgresType sample_naming User) =
           [AddColumn ''email'' ''TEXT'']"
    by (simp add: column_specs_def sample_naming_def User_def isModelField_def
          gorm_Model_def string_type_def toLowerASCII_def Migrator_getPostgresType_def
          sample_db_without_email_def EqualFold_def)
  have n: "TableName sample_naming (ModelName User) = ''users''"
    by (simp add: sample_naming_def User_def toLowerASCII_def)
  show ?thesis
    using c e
      diff_never_touches_columns_outside_the_model
        [OF c, of sample_db_without_email]
    by (simp add: n s t)
qed

section \<open>Rollback of an ALTER TABLE\<close>

text \<open>The third field of an \<open>ADD COLUMN\<close> clause is the name of the column.\<close>

lemma Fields_AddColumn:
  assumes "wellFormedName name"
  shows "Fields (render (AddColumn name sql_type)) =
           ''ADD'' # ''COLUMN'' # name # fields_scan 0 [] sql_type"
proof -
  have ns: "\<not> hasSpace name" and ne: "name \<noteq> []"
    using assms by (auto simp: wellFormedName_def)
  have "Fields (render (AddColumn name sql_type)) =
          ''ADD'' # ''COLUMN'' # fields_scan 0 [] (name @ CHR '' '' # sql_type)"
    by (simp add: Fields_def fields_scan_space fields_scan_plain asciiSpace_def
             del: fields_scan.simps)
  also have "fields_scan 0 [] (name @ CHR '' '' # sql_type) =
               name # fields_scan 0 [] sql_type"
    using ne by (simp add: fields_scan_word[OF ns] fields_scan_space del: fields_scan.simps)
  finally show ?thesis .
qed

lemma HasPrefix_render: "HasPrefix (render d) ''ADD COLUMN'' = isAddColumn d"
  by (cases d) (simp_all add: HasPrefix_def)

lemma rollbackStatements_render:
  "list_all (\<lambda>d. wellFormedName (diff_column d)) (filter isAddColumn ds) \<Longrightarrow>
   rollbackStatements (map render ds) = Inr (map dropClause (filter isAddColumn ds))"
proof (induction ds)
  case Nil
  then show ?case by simp
next
  case (Cons d ds)
  show ?case
  proof (cases d)
    case (AddColumn name sql_type)
    with Cons.prems have wf: "wellFormedName name"
      and rest: "list_all (\<lambda>d. wellFormedName (diff_column d)) (filter isAddColumn ds)"
      by auto
    have "at_index (Fields (render (AddColumn name sql_type))) 2 = Inr name"
      unfolding Fields_AddColumn[OF wf] by (simp add: at_index_def)
    moreover have "HasPrefix (render (AddColumn name sql_type)) ''ADD COLUMN''"
      by (simp add: HasPrefix_render del: render.simps)
    ultimately show ?thesis
      using AddColumn Cons.IH[OF rest]
      by (simp add: dropClause_def del: render.simps)
  next
    case (AlterColumnType name sql_type)
    with Cons.prems have
      rest: "list_all (\<lambda>d. wellFormedName (diff_column d)) (filter isAddColumn ds)"
      by auto
    with AlterColumnType Cons.IH[OF rest] show ?thesis
      by (simp add: HasPrefix_def)
  qed
qed

text \<open>
  The code reads the name of an added column back as the third white-space field
  of the clause. A name with a blank gives its first word, an empty name the
  first word of the type, and an empty name with an empty type a panic: for
  such lists the rollback does not hold one \<open>DROP COLUMN name\<close> per added
  column.
\<close>

theorem rollback_of_malformed_names:
  "generateRollbackAlterTableSQL ''users'' (map render [AddColumn ''first name'' ''TEXT'']) =
     Inr (''ALTER TABLE users'' @ nl @ ''DROP COLUMN first;'') \<and>
   generateRollbackAlterTableSQL ''users'' (map render [AddColumn ''first name'' ''TEXT'']) \<noteq>
     Inr (''ALTER TABLE users'' @ nl @ ''DROP COLUMN first name;'') \<and>
   generateRollbackAlterTableSQL ''users'' (map render [AddColumn '''' ''TEXT'']) =
     Inr (''ALTER TABLE users'' @ nl @ ''DROP COLUMN TEXT;'') \<and>
   generateRollbackAlterTableSQL ''users'' (map render [AddColumn '''' '''']) =
     Inl (IndexOutOfRange 2 2)"
  by (simp add: generateRollbackAlterTableSQL_def HasPrefix_def Fields_def asciiSpace_def
        at_index_def)

text \<open>
  Claim C2, amended. For every list of differences whose added columns have
  well-formed names (not empty, no white space),
  \<open>generateRollbackAlterTableSQL\<close> applied to the clauses of the list collects
  exactly one \<open>DROP COLUMN name\<close> per \<open>AddColumn\<close> difference, in order, and
  nothing for an \<open>AlterColumnType\<close> difference; the statement is the empty string
  when the list holds no \<open>AddColumn\<close> difference, and otherwise the clauses
  joined by a comma and a newline inside one \<open>ALTER TABLE\<close> statement.
\<close>

theorem rollback_one_drop_per_added_column:
  assumes "list_all (\<lambda>d. wellFormedName (diff_column d)) (filter isAddColumn ds)"
  shows "rollbackStatements (map render ds) = Inr (map dropClause (filter isAddColumn ds)) \<and>
         generateRollbackAlterTableSQL tableName (map render ds) =
           Inr (if filter isAddColumn ds = [] then ''''
                else ''ALTER TABLE '' @ tableName @ nl
                       @ Join (map dropClause (filter isAddColumn ds)) ('','' @ nl) @ '';'')"
  using rollbackStatements_render[OF assms]
  by (simp add: generateRollbackAlterTableSQL_def)

theorem rollback_one_drop_per_added_column_witness:
  "list_all (\<lambda>d. wellFormedName (diff_column d))
     (filter isAddColumn
        [AddColumn ''email'' ''TEXT'', AlterColumnType ''name'' ''TEXT'',
         AddColumn ''score'' ''DOUBLE PRECISION'']) \<and>
   generateRollbackAlterTableSQL ''users''
     (map render
        [AddColumn ''email'' ''TEXT'', AlterColumnType ''name'' ''TEXT'',
         AddColumn ''score'' ''DOUBLE PRECISION'']) =
     Inr (''ALTER TABLE users'' @ nl @ ''DROP COLUMN email,'' @ nl @ ''DROP COLUMN score;'') \<and>
   generateRollbackAlterTableSQL ''users'' (map render [AlterColumnType ''email'' ''TEXT'']) =
     Inr ''''"
proof -
  have wf: "list_all (\<lambda>d. wellFormedName (diff_column d))
     (filter isAddColumn
        [AddColumn ''email'' ''TEXT'', AlterColumnType ''name'' ''TEXT'',
         AddColumn ''score'' ''DOUBLE PRECISION''])"
    by (simp add: wellFormedName_def asciiSpace_def)
  have wf2: "list_all (\<lambda>d. wellFormedName (diff_column d))
     (filter isAddColumn [AlterColumnType ''email'' ''TEXT''])"
    by simp
  show ?thesis
    using wf rollback_one_drop_per_added_column[OF wf, of "''users''"]
      rollback_one_drop_per_added_column[OF wf2, of "''users''"]
    by (simp add: dropClause_def del: render.simps)
qed

text \<open>
  The same for the differences \<open>compareModelToTable\<close> returns, under a naming
  strategy that gives the fields of the model well-formed column names: the
  rollback holds one \<open>DROP COLUMN\<close> per column the diff adds.
\<close>

lemma rollback_of_compared_model:
  assumes "list_all wellFormedName (model_columns ns m)"
  shows "generateRollbackAlterTableSQL tableName (fst (Migrator_compareModelToTable ns db m)) =
           Inr (if filter isAddColumn
                     (spec_diff db (TableName ns (ModelName m))
                        (column_specs Migrator_getPostgresType ns m)) = [] then ''''
                else ''ALTER TABLE '' @ tableName @ nl
                       @ Join (map dropClause
                                 (filter isAddColumn
                                    (spec_diff db (TableName ns (ModelName m))
                                       (column_specs Migrator_getPostgresType ns m))))
                            ('','' @ nl) @ '';'')"
proof -
  let ?D = "spec_diff db (TableName ns (ModelName m))
              (column_specs Migrator_getPostgresType ns m)"
  have "set (map diff_column ?D) \<subseteq> set (model_columns ns m)"
    using spec_diff_columns[of db "TableName ns (ModelName m)"
            "column_specs Migrator_getPostgresType ns m"]
    by (simp only: fst_column_specs)
  with assms have "list_all (\<lambda>d. wellFormedName (diff_column d)) ?D"
    by (auto simp: list_all_iff)
  then have "list_all (\<lambda>d. wellFormedName (diff_column d)) (filter isAddColumn ?D)"
    by (auto simp: list_all_iff)
  then have "rollbackStatements (map render ?D) = Inr (map dropClause (filter isAddColumn ?D))"
    by (rule rollbackStatements_render)
  moreover have "fst (Migrator_compareModelToTable ns db m) = map render ?D"
    by (simp add: Migrator_compareModelToTable_def compareFields_render column_specs_def)
  ultimately show ?thesis
    by (simp add: generateRollbackAlterTableSQL_def)
qed

section \<open>CREATE TABLE on the edge cases\<close>

text \<open>
  Claim C3: on a model that contributes no column the CREATE TABLE generator
  returns the empty string, never a statement with an empty list of columns, and
  the ALTER TABLE generator and its rollback return the empty string on an empty
  list of differences. On a model without fields \<open>generateCreateTableSQL\<close> of
  main.go returns the empty string, and \<open>generateAlterTableSQL\<close> and
  \<open>generateRollbackAlterTableSQL\<close> return it on an empty list of differences.
  \<open>Migrator.generateCreateTableSQL\<close> has no test for an empty list of columns:
  on the same model it returns a \<open>CREATE TABLE\<close> statement with nothing between
  the parentheses.
\<close>

theorem Migrator_create_table_of_empty_model:
  "Migrator_generateCreateTableSQL ns \<lparr>ModelName = name, ModelFields = []\<rparr> =
     Inr (''CREATE TABLE '' @ TableName ns name @ '' ('' @ nl @ nl @ '');'') \<and>
   generateCreateTableSQL ns \<lparr>ModelName = name, ModelFields = []\<rparr> = Inr '''' \<and>
   generateAlterTableSQL tableName [] = '''' \<and>
   generateRollbackAlterTableSQL tableName [] = Inr ''''"
  by (simp add: Migrator_generateCreateTableSQL_def generateCreateTableSQL_def
        generateAlterTableSQL_def generateRollbackAlterTableSQL_def no_columns_def)

text \<open>
  Claim C7: after the \<open>CREATE TABLE\<close> statement the generator appends one
  \<open>FOREIGN KEY\<close> line per column with a foreign key, one \<open>CREATE INDEX\<close>
  statement per column with an index and one \<open>COMMENT ON COLUMN\<close> statement per
  column with a comment. For a model with a foreign key on \<open>Owner\<close>, an index on
  \<open>Email\<close> and a comment on \<open>Note\<close>, \<open>Migrator.generateCreateTableSQL\<close> appends the
  \<open>FOREIGN KEY\<close> line and the \<open>COMMENT ON COLUMN\<close> statement and no
  \<open>CREATE INDEX\<close> statement: the loop collects the statement in \<open>indexes\<close> and
  the method never reads that slice. \<open>generateCreateTableSQL\<close> of main.go
  appends none of the three.
\<close>

theorem create_table_appends_no_index:
  "Migrator_generateCreateTableSQL sample_naming
     \<lparr>ModelName = ''Order'',
      ModelFields =
        [\<lparr>FieldName = ''Owner'', FieldType = int_type, gormTag = ''foreignKey:User''\<rparr>,
         \<lparr>FieldName = ''Email'', FieldType = string_type, gormTag = ''index''\<rparr>,
         \<lparr>FieldName = ''Note'', FieldType = string_type, gormTag = ''comment:internal''\<rparr>]\<rparr>
     = Inr (''CREATE TABLE orders ('' @ nl @ ''owner BIGINT,'' @ nl @ ''email TEXT,'' @ nl
            @ ''note TEXT'' @ nl @ '');'' @ nl
            @ ''FOREIGN KEY (owner) REFERENCES User(id)'' @ nl @ nl
            @ ''COMMENT ON COLUMN orders.note IS '' @ [CHR 0x27] @ ''internal'' @ [CHR 0x27]
            @ '';'' @ nl) \<and>
   generateCreateTableSQL sample_naming
     \<lparr>ModelName = ''Order'',
      ModelFields =
        [\<lparr>FieldName = ''Owner'', FieldType = int_type, gormTag = ''foreignKey:User''\<rparr>,
         \<lparr>FieldName = ''Email'', FieldType = string_type, gormTag = ''index''\<rparr>,
         \<lparr>FieldName = ''Note'', FieldType = string_type, gormTag = ''comment:internal''\<rparr>]\<rparr>
     = Inr (''CREATE TABLE orders ('' @ nl @ ''owner BIGINT,'' @ nl @ ''email VARCHAR,'' @ nl
            @ ''note VARCHAR'' @ nl @ '');'') \<and>
   Migrator_createTableFields sample_naming ''Order''
     [\<lparr>FieldName = ''Email'', FieldType = string_type, gormTag = ''index''\<rparr>] no_columns
     = Inr \<lparr>columns = [''email TEXT''], primaryKeys = [], foreignKeys = [],
            indexes = [''CREATE INDEX idx_email ON orders (email);''], comments = []\<rparr> \<and>
   Migrator_generateCreateTableSQL sample_naming
     \<lparr>ModelName = ''Order'',
      ModelFields = [\<lparr>FieldName = ''Email'', FieldType = string_type, gormTag = ''index''\<rparr>]\<rparr>
     = Inr (''CREATE TABLE orders ('' @ nl @ ''email TEXT'' @ nl @ '');'')"
  by (simp add: Migrator_generateCreateTableSQL_def generateCreateTableSQL_def
        Migrator_buildColumnDefinition_def buildColumnDefinition_def
        Migrator_getDefault_def Migrator_getComment_def Migrator_getForeignKey_def
        getComment_def getForeignKey_def
        Migrator_getPostgresType_def getPostgresType_def
        sample_naming_def toLowerASCII_def isModelField_def gorm_Model_def
        int_type_def string_type_def no_columns_def indexStatement_def commentStatement_def
        at_index_def HasPrefix_def Let_def)

lemma Migrator_createTableFields_total:
  "\<exists>acc1. Migrator_createTableFields ns modelName flds acc = Inr acc1"
proof (induction flds arbitrary: acc)
  case Nil
  then show ?case by simp
next
  case (Cons field rest)
  obtain cd where cd:
    "Migrator_buildColumnDefinition (ColumnName ns '''' (FieldName field)) (FieldType field)
       (gormTag field) = Inr cd"
    using Migrator_buildColumnDefinition_total by blast
  obtain fk where fk:
    "Migrator_getForeignKey (gormTag field) (ColumnName ns '''' (FieldName field)) = Inr fk"
    using Migrator_getForeignKey_total by blast
  obtain cm where cm: "Migrator_getComment (gormTag field) = Inr cm"
    using Migrator_getComment_total by blast
  show ?case
    by (simp add: cd fk cm Let_def Cons.IH)
qed

text \<open>
  \<open>Migrator.generateCreateTableSQL\<close> returns a statement for every model, and the
  statement is never the empty string.
\<close>

theorem Migrator_generateCreateTableSQL_total:
  "\<exists>sql. Migrator_generateCreateTableSQL ns m = Inr sql \<and> sql \<noteq> ''''"
proof -
  obtain acc where
    "Migrator_createTableFields ns (ModelName m) (ModelFields m) no_columns = Inr acc"
    using Migrator_createTableFields_total by blast
  then show ?thesis
    by (simp add: Migrator_generateCreateTableSQL_def Let_def)
qed

text \<open>
  The first scenario of the specification: the model \<open>User\<close> with no table
  \<open>users\<close> in the database.
\<close>

theorem create_table_for_User:
  "Migrator_generateCreateTableSQL sample_naming User =
     Inr (''CREATE TABLE users ('' @ nl
          @ ''id BIGSERIAL PRIMARY KEY,'' @ nl
          @ ''created_at TIMESTAMP NOT NULL DEFAULT CURRENT_TIMESTAMP,'' @ nl
          @ ''updated_at TIMESTAMP NOT NULL DEFAULT CURRENT_TIMESTAMP,'' @ nl
          @ ''deleted_at TIMESTAMP NULL,'' @ nl
          @ ''name TEXT,'' @ nl
          @ ''email TEXT'' @ nl @ '');'')"
  by (simp add: Migrator_generateCreateTableSQL_def Migrator_buildColumnDefinition_def
        Migrator_getDefault_def Migrator_getComment_def Migrator_getForeignKey_def
        Migrator_getPostgresType_def User_def sample_naming_def toLowerASCII_def
        isModelField_def gorm_Model_def string_type_def no_columns_def baseColumns_def
        HasPrefix_def Let_def)

section \<open>A migration that only changes types\<close>

text \<open>
  With \<open>users.email\<close> of type \<open>character varying\<close> the diff of \<open>User\<close> holds type
  changes only, the rollback is empty, and both \<open>Migrator.GenerateMigrations\<close>
  and \<open>generateMigrations\<close> log a failure and write no file, the forward
  migration included. With the column \<open>email\<close> missing, both files are written.
\<close>

lemma sample_table: "TableName sample_naming (ModelName User) = ''users''"
  by (simp add: sample_naming_def User_def toLowerASCII_def)

lemma sample_Migrator_diff:
  "Migrator_compareModelToTable sample_naming sample_db User =
     ([''ALTER COLUMN email TYPE TEXT''], [])"
  by (simp add: Migrator_compareModelToTable_def sample_naming_def User_def isModelField_def
        gorm_Model_def string_type_def toLowerASCII_def Migrator_getPostgresType_def
        sample_db_def EqualFold_def)

lemma sample_main_diff:
  "compareModelToTable sample_naming sample_db User =
     ([''ALTER COLUMN name TYPE VARCHAR'', ''ALTER COLUMN email TYPE VARCHAR''], [])"
  by (simp add: compareModelToTable_def sample_naming_def User_def isModelField_def
        gorm_Model_def string_type_def toLowerASCII_def getPostgresType_def
        sample_db_def EqualFold_def)

lemma sample_table_exists: "query_table_exists sample_db ''users'' = Inr True"
  by (simp add: sample_db_def)

theorem type_change_only_suppresses_forward_migration:
  "Migrator_GenerateMigrations sample_config sample_naming sample_db sample_fs fresh_run [User]
     = Inr \<lparr>files = [], logged = [''Failed to generate ALTER TABLE SQL for users'']\<rparr> \<and>
   generateMigrations sample_config sample_naming sample_db sample_fs fresh_run
     = Inr \<lparr>files = [], logged = [''Failed to generate ALTER TABLE SQL for users'']\<rparr> \<and>
   generateAlterTableSQL ''users'' (fst (Migrator_compareModelToTable sample_naming sample_db User))
     = ''ALTER TABLE users'' @ nl @ ''ALTER COLUMN email TYPE TEXT;'' \<and>
   generateRollbackAlterTableSQL ''users''
     (fst (Migrator_compareModelToTable sample_naming sample_db User)) = Inr ''''"
  by (simp add: Migrator_GenerateMigrations_def generateMigrations_def processModel_def
        sample_table sample_table_exists sample_Migrator_diff sample_main_diff
        generateAlterTableSQL_def generateRollbackAlterTableSQL_def HasPrefix_def
        sample_config_def fresh_run_def log_line_def Let_def)

lemma rollbackStatements_no_AddColumn:
  "filter isAddColumn ds = [] \<Longrightarrow> rollbackStatements (map render ds) = Inr []"
  using rollbackStatements_render[of ds] by simp

text \<open>
  Claim C5, amended. When the table exists and the diff of a model is not empty
  and holds type changes only, the rollback statement is empty, and the body of
  the loop of \<open>generateMigrations\<close> and of \<open>Migrator.GenerateMigrations\<close> returns
  with the files as they were, writing neither the forward nor the down
  migration, and with the log line of the failure last.
\<close>

theorem type_change_only_writes_no_file:
  assumes "query_table_exists db (TableName ns (ModelName m)) = Inr True"
    and "fst (compare ns db m) = map render ds"
    and "ds \<noteq> []"
    and "filter isAddColumn ds = []"
  shows "generateRollbackAlterTableSQL (TableName ns (ModelName m)) (fst (compare ns db m))
           = Inr '''' \<and>
         (\<exists>st1. processModel createSQL compare cfg ns db fs st m = Inr st1 \<and>
                files st1 = files st \<and>
                last (logged st1) =
                  ''Failed to generate ALTER TABLE SQL for '' @ TableName ns (ModelName m))"
proof -
  have r: "generateRollbackAlterTableSQL (TableName ns (ModelName m))
             (fst (compare ns db m)) = Inr ''''"
    using assms(2) rollbackStatements_no_AddColumn[OF assms(4)]
    by (simp add: generateRollbackAlterTableSQL_def)
  have n: "0 < length (fst (compare ns db m))"
    using assms(2,3) by simp
  show ?thesis
    using r n assms(1)
    by (simp add: processModel_def log_line_def Let_def)
qed

theorem type_change_only_writes_no_file_witness:
  "query_table_exists sample_db (TableName sample_naming (ModelName User)) = Inr True \<and>
   fst (Migrator_compareModelToTable sample_naming sample_db User) =
     map render [AlterColumnType ''email'' ''TEXT''] \<and>
   [AlterColumnType ''email'' ''TEXT''] \<noteq> [] \<and>
   filter isAddColumn [AlterColumnType ''email'' ''TEXT''] = [] \<and>
   (\<exists>st1. processModel Migrator_generateCreateTableSQL Migrator_compareModelToTable
            sample_config sample_naming sample_db sample_fs fresh_run User = Inr st1 \<and>
          files st1 = files fresh_run \<and>
          last (logged st1) = ''Failed to generate ALTER TABLE SQL for users'')"
proof -
  have a: "query_table_exists sample_db (TableName sample_naming (ModelName User)) = Inr True"
    by (simp add: sample_table sample_table_exists)
  have b: "fst (Migrator_compareModelToTable sample_naming sample_db User) =
             map render [AlterColumnType ''email'' ''TEXT'']"
    by (simp add: sample_Migrator_diff)
  have c: "[AlterColumnType ''email'' ''TEXT''] \<noteq> []"
    by simp
  have d: "filter isAddColumn [AlterColumnType ''email'' ''TEXT''] = []"
    by simp
  show ?thesis
    using a b c d
      type_change_only_writes_no_file
        [where compare = Migrator_compareModelToTable and ns = sample_naming
           and db = sample_db and m = User and ds = "[AlterColumnType ''email'' ''TEXT'']"
           and createSQL = Migrator_generateCreateTableSQL and cfg = sample_config
           and fs = sample_fs and st = fresh_run, OF a b c d]
    by (simp add: sample_table)
qed

text \<open>When a column is added, the forward migration and its rollback are both written.\<close>

theorem added_column_writes_both_files:
  "Migrator_GenerateMigrations sample_config sample_naming sample_db_without_email sample_fs
     fresh_run [User]
     = Inr \<lparr>files =
              [\<lparr>file_dir = ''migrations'',
                file_name = ''20240101120000_alter_users_table.up.sql'',
                file_content = ''ALTER TABLE users'' @ nl @ ''ADD COLUMN email TEXT;''\<rparr>,
               \<lparr>file_dir = ''migrations'',
                file_name = ''20240101120000_rollback_users_table.down.sql'',
                file_content = ''ALTER TABLE users'' @ nl @ ''DROP COLUMN email;''\<rparr>],
            logged = []\<rparr>"
proof -
  have d: "Migrator_compareModelToTable sample_naming sample_db_without_email User =
             ([''ADD COLUMN email TEXT''], [])"
    by (simp add: Migrator_compareModelToTable_def sample_naming_def User_def
          isModelField_def gorm_Model_def string_type_def toLowerASCII_def
          Migrator_getPostgresType_def sample_db_without_email_def EqualFold_def)
  have e: "query_table_exists sample_db_without_email ''users'' = Inr True"
    by (simp add: sample_db_without_email_def)
  have f: "Fields ''ADD COLUMN email TEXT'' = [''ADD'', ''COLUMN'', ''email'', ''TEXT'']"
    by (simp add: Fields_def asciiSpace_def)
  show ?thesis
    by (simp add: Migrator_GenerateMigrations_def processModel_def sample_table d e f
          generateAlterTableSQL_def generateRollbackAlterTableSQL_def HasPrefix_def
          at_index_def createMigrationFile_def sample_fs_def
          sample_config_def fresh_run_def log_line_def Let_def)
qed

section \<open>RegisterModels keeps nothing\<close>

text \<open>
  After \<open>RegisterModels\<close> on one model the package state is what it was, and what
  it is after registering nothing: the doubled slice is the last value of the
  parameter and is dropped on return.
\<close>

theorem RegisterModels_leaves_no_trace:
  "RegisterModels \<lparr>modelLock = False\<rparr> [User] =
     Some (\<lparr>modelLock = False\<rparr>, [User, User]) \<and>
   map_option fst (RegisterModels \<lparr>modelLock = False\<rparr> [User]) =
     map_option fst (RegisterModels \<lparr>modelLock = False\<rparr> ([] :: model list))"
  by (simp add: RegisterModels_def)

text \<open>
  Claim C10, amended. A call of \<open>RegisterModels\<close> with the mutex free takes and
  releases the mutex and leaves the package state as it was; the self-append
  doubles the parameter \<open>models\<close> of the call, a value that is not stored in any
  package-level variable. The state after the call is the same whatever models
  were passed. (Slices are values here. A caller that passes a slice with spare
  capacity, \<open>RegisterModels(xs...)\<close>, has the copies written into that spare
  capacity of its own array, beyond the length of \<open>xs\<close>; the slice \<open>xs\<close> and its
  elements stay as they were.)
\<close>

theorem RegisterModels_doubles_its_parameter_only:
  "RegisterModels ps models =
     (if modelLock ps then None else Some (ps, models @ models)) \<and>
   map_option fst (RegisterModels ps models) = map_option fst (RegisterModels ps [])"
  by (simp add: RegisterModels_def)

end
